theory Spec2Isabelle
  imports Complex_Main
begin

section \<open>Values of the Python programs\<close>

text \<open>
  The scripts handle decoded JSON: \<open>None\<close>, booleans, integers, floats, strings, lists
  and dictionaries. A dictionary keeps its insertion order, so it is an association list
  (a decoded JSON object has no duplicate key). Python's \<open>None\<close> is \<open>JNull\<close>.
  A finite float is named by the rational number it denotes; the non-finite floats are
  not represented. What an operation on floats rounds to is not computed here: it is the
  machine's, see \<open>float_arith\<close>.
\<close>

datatype json =
    JNull
  | JBool bool
  | JInt int
  | JFloat rat
  | JStr string
  | JArr "json list"
  | JObj "(string \<times> json) list"

type_synonym dict = "(string \<times> json) list"

text \<open>The text of a file or of an HTTP body: JSON, or something \<open>json.load\<close> rejects.\<close>

datatype body = NotJson | JsonBody json

record http_response =
  status_code :: int
  content :: body

text \<open>The five \<open>raise ApiError(...)\<close> sites of \<open>fetch_all\<close>, in source order.\<close>

datatype shape_violation =
    NotADict
  | MissingItens
  | MissingItensTotais
  | ItensNotList
  | ItemNotObject

datatype py_error =
    ApiError shape_violation
  | HTTPError http_response
  | JSONDecodeError
  | TypeError
  | ValueError
  | AttributeError
  | KeyError string
  | SystemExit
  | OperationalError
  | InterfaceError
  | OverflowError
  | NonFiniteFloat

fun is_dict :: "json \<Rightarrow> bool" where
  "is_dict (JObj _) = True"
| "is_dict _ = False"

text \<open>\<open>record.get(column)\<close> on a dictionary: \<open>None\<close> for a key that is absent.\<close>

definition dict_get :: "dict \<Rightarrow> string \<Rightarrow> json" where
  "dict_get record column = (case map_of record column of None \<Rightarrow> JNull | Some v \<Rightarrow> v)"

text \<open>Truth value of an object, as \<open>if x:\<close> and \<open>not x\<close> test it.\<close>

fun truthy :: "json \<Rightarrow> bool" where
  "truthy JNull = False"
| "truthy (JBool b) = b"
| "truthy (JInt n) = (n \<noteq> 0)"
| "truthy (JFloat q) = (q \<noteq> 0)"
| "truthy (JStr s) = (s \<noteq> [])"
| "truthy (JArr xs) = (xs \<noteq> [])"
| "truthy (JObj kvs) = (kvs \<noteq> [])"

text \<open>
  \<open>int(x)\<close>. What it makes of a string is Python's own grammar of integer literals, taken
  as the parameter \<open>int_of_str\<close> (\<open>None\<close> where \<open>int\<close> raises \<open>ValueError\<close>).
  A float is truncated towards zero.
\<close>

fun py_int :: "(string \<Rightarrow> int option) \<Rightarrow> json \<Rightarrow> py_error + int" where
  "py_int int_of_str (JInt n) = Inr n"
| "py_int int_of_str (JBool b) = Inr (if b then 1 else 0)"
| "py_int int_of_str (JFloat q) = Inr (if 0 \<le> q then \<lfloor>q\<rfloor> else \<lceil>q\<rceil>)"
| "py_int int_of_str (JStr s) =
     (case int_of_str s of None \<Rightarrow> Inl ValueError | Some n \<Rightarrow> Inr n)"
| "py_int int_of_str JNull = Inl TypeError"
| "py_int int_of_str (JArr _) = Inl TypeError"
| "py_int int_of_str (JObj _) = Inl TypeError"

text \<open>
  \<open>response.raise_for_status()\<close> of the requests library raises \<open>HTTPError\<close>, which holds
  the response, for a status code from 400 to 599 and for no other.
\<close>

definition raise_for_status :: "http_response \<Rightarrow> py_error option" where
  "raise_for_status response =
     (if 400 \<le> status_code response \<and> status_code response < 600
      then Some (HTTPError response) else None)"

text \<open>\<open>response.json()\<close>.\<close>

definition response_json :: "http_response \<Rightarrow> py_error + json" where
  "response_json response =
     (case content response of NotJson \<Rightarrow> Inl JSONDecodeError | JsonBody v \<Rightarrow> Inr v)"

section \<open>financial_events_sync.py: the paginated fetcher\<close>

definition PAGE_SIZE :: int where
  "PAGE_SIZE = 100"

text \<open>The query parameters of one GET.\<close>

record params =
  pagina :: int
  tamanho_pagina :: int
  data_vencimento_de :: string
  data_vencimento_ate :: string

text \<open>
  The session answers a GET of an endpoint with parameters. A call that gives no response
  at all (a timeout, a lost connection) is outside the model.
\<close>

type_synonym session = "string \<Rightarrow> params \<Rightarrow> http_response"

text \<open>
  The local variables of \<open>fetch_all\<close>, and \<open>calls\<close>: the GETs issued so far, oldest
  first, which the source does not store.
\<close>

record fetch_state =
  collected :: "json list"
  total_expected :: "int option"
  page :: int
  calls :: "(string \<times> params) list"

text \<open>
  The \<open>for item in items\<close> loop: \<open>Inl\<close> is the accumulator at the moment an item that
  is no dictionary raises.
\<close>

fun append_items :: "json list \<Rightarrow> json list \<Rightarrow> json list + json list" where
  "append_items acc [] = Inr acc"
| "append_items acc (item # items) =
     (if is_dict item then append_items (acc @ [item]) items else Inl acc)"

text \<open>How one pass through the body of \<open>while True\<close> ends.\<close>

datatype step = Raise py_error fetch_state | Break fetch_state | Continue fetch_state

definition loop_body ::
  "(string \<Rightarrow> int option) \<Rightarrow> session \<Rightarrow> string \<Rightarrow> string \<Rightarrow> string \<Rightarrow> fetch_state \<Rightarrow> step" where
  "loop_body int_of_str session endpoint start until st =
     (let ps = \<lparr>pagina = page st, tamanho_pagina = PAGE_SIZE,
                 data_vencimento_de = start, data_vencimento_ate = until\<rparr>;
          response = session endpoint ps;
          st1 = st\<lparr>calls := calls st @ [(endpoint, ps)]\<rparr>
      in case raise_for_status response of
           Some e \<Rightarrow> Raise e st1
         | None \<Rightarrow>
          (case response_json response of
             Inl e \<Rightarrow> Raise e st1
           | Inr payload \<Rightarrow>
            (case payload of
               JObj kvs \<Rightarrow>
                (case map_of kvs ''itens'' of
                   None \<Rightarrow> Raise (ApiError MissingItens) st1
                 | Some items_v \<Rightarrow>
                  (case map_of kvs ''itens_totais'' of
                     None \<Rightarrow> Raise (ApiError MissingItensTotais) st1
                   | Some total_v \<Rightarrow>
                    (case items_v of
                       JArr items \<Rightarrow>
                        (case py_int int_of_str total_v of
                           Inl e \<Rightarrow> Raise e st1
                         | Inr tot \<Rightarrow>
                            (let captured = (case total_expected st1 of
                                               None \<Rightarrow> tot
                                             | Some t \<Rightarrow> t);
                                 st2 = st1\<lparr>total_expected := Some captured\<rparr>
                             in case append_items (collected st2) items of
                                  Inl acc \<Rightarrow> Raise (ApiError ItemNotObject) (st2\<lparr>collected := acc\<rparr>)
                                | Inr acc \<Rightarrow>
                                   (let st3 = st2\<lparr>collected := acc\<rparr>
                                    in if int (length (collected st3)) \<ge> captured \<or> items = []
                                       then Break st3
                                       else Continue (st3\<lparr>page := page st3 + 1\<rparr>))))
                     | _ \<Rightarrow> Raise (ApiError ItensNotList) st1)))
             | _ \<Rightarrow> Raise (ApiError NotADict) st1)))"

text \<open>
  What a pass that continues has done: the total is set and not yet reached, the
  accumulator has grown, and a total captured earlier is kept.
\<close>

lemma append_items_length:
  "append_items acc items = Inr acc' \<Longrightarrow> length acc' = length acc + length items"
  by (induction items arbitrary: acc) (auto split: if_splits)

lemma loop_body_Continue:
  assumes "loop_body int_of_str session endpoint start until st = Continue st'"
  shows "\<exists>t. total_expected st' = Some t \<and> int (length (collected st')) < t
           \<and> length (collected st) < length (collected st')
           \<and> (total_expected st = None \<or> total_expected st = Some t)"
  using assms
  unfolding loop_body_def Let_def
  by (auto split: option.splits sum.splits json.splits if_splits
           dest!: append_items_length)

text \<open>
  The \<open>while True\<close> loop. It returns what \<open>fetch_all\<close> returns or raises, with the
  variables as they are at that moment.
\<close>

function fetch_loop ::
  "(string \<Rightarrow> int option) \<Rightarrow> session \<Rightarrow> string \<Rightarrow> string \<Rightarrow> string \<Rightarrow> fetch_state
     \<Rightarrow> (py_error + json list) \<times> fetch_state" where
  "fetch_loop int_of_str session endpoint start until st =
     (case loop_body int_of_str session endpoint start until st of
        Raise e st' \<Rightarrow> (Inl e, st')
      | Break st' \<Rightarrow> (Inr (collected st'), st')
      | Continue st' \<Rightarrow> fetch_loop int_of_str session endpoint start until st')"
  by pat_completeness auto
termination
proof (relation "inv_image (less_than <*lex*> less_than)
         (\<lambda>(int_of_str, session, endpoint, start, until, st).
            (case total_expected st of None \<Rightarrow> (1::nat) | Some _ \<Rightarrow> 0,
             case total_expected st of
               None \<Rightarrow> (0::nat)
             | Some t \<Rightarrow> nat (t - int (length (collected st)))))", goal_cases)
  case 1
  show ?case by (intro wf_inv_image wf_lex_prod wf_less_than)
next
  case (2 int_of_str session endpoint start until st st')
  from loop_body_Continue [OF 2] show ?case
    by (auto split: option.splits)
qed

definition fetch_all ::
  "(string \<Rightarrow> int option) \<Rightarrow> session \<Rightarrow> string \<Rightarrow> string \<Rightarrow> string
     \<Rightarrow> (py_error + json list) \<times> fetch_state" where
  "fetch_all int_of_str session endpoint start until =
     fetch_loop int_of_str session endpoint start until
       \<lparr>collected = [], total_expected = None, page = 1, calls = []\<rparr>"

section \<open>Properties of the paginated fetcher\<close>

text \<open>
  Vocabulary for the statements: the parameters of the GET for page \<open>p\<close>, the response
  the session gives to it, and what a well-shaped response holds. A response is well-shaped
  when \<open>raise_for_status\<close> accepts it and its body is a JSON object with a list \<open>itens\<close>
  of objects and an integer \<open>itens_totais\<close>.
\<close>

definition page_params :: "string \<Rightarrow> string \<Rightarrow> int \<Rightarrow> params" where
  "page_params start until p =
     \<lparr>pagina = p, tamanho_pagina = PAGE_SIZE,
      data_vencimento_de = start, data_vencimento_ate = until\<rparr>"

definition response_at :: "session \<Rightarrow> string \<Rightarrow> string \<Rightarrow> string \<Rightarrow> int \<Rightarrow> http_response" where
  "response_at session endpoint start until p = session endpoint (page_params start until p)"

definition well_shaped :: "http_response \<Rightarrow> bool" where
  "well_shaped response =
     (raise_for_status response = None \<and>
      (case content response of
         JsonBody (JObj kvs) \<Rightarrow>
           (case (map_of kvs ''itens'', map_of kvs ''itens_totais'') of
              (Some (JArr items), Some (JInt t)) \<Rightarrow> list_all is_dict items
            | _ \<Rightarrow> False)
       | _ \<Rightarrow> False))"

definition items_of :: "http_response \<Rightarrow> json list" where
  "items_of response =
     (case content response of
        JsonBody (JObj kvs) \<Rightarrow>
          (case map_of kvs ''itens'' of Some (JArr items) \<Rightarrow> items | _ \<Rightarrow> [])
      | _ \<Rightarrow> [])"

definition total_of :: "http_response \<Rightarrow> int" where
  "total_of response =
     (case content response of
        JsonBody (JObj kvs) \<Rightarrow>
          (case map_of kvs ''itens_totais'' of Some (JInt t) \<Rightarrow> t | _ \<Rightarrow> 0)
      | _ \<Rightarrow> 0)"

definition pages_upto :: "session \<Rightarrow> string \<Rightarrow> string \<Rightarrow> string \<Rightarrow> int \<Rightarrow> json list" where
  "pages_upto session endpoint start until n =
     concat (map (\<lambda>p. items_of (response_at session endpoint start until p)) [1..n])"

definition calls_upto :: "string \<Rightarrow> string \<Rightarrow> string \<Rightarrow> int \<Rightarrow> (string \<times> params) list" where
  "calls_upto endpoint start until n = map (\<lambda>p. (endpoint, page_params start until p)) [1..n]"

definition stops_at :: "session \<Rightarrow> string \<Rightarrow> string \<Rightarrow> string \<Rightarrow> int \<Rightarrow> bool" where
  "stops_at session endpoint start until n =
     (int (length (pages_upto session endpoint start until n))
        \<ge> total_of (response_at session endpoint start until 1)
      \<or> items_of (response_at session endpoint start until n) = [])"

text \<open>
  Concrete inputs: a stand-in for \<open>int\<close> on strings (no input below converts a string), and
  a session that serves 250 numbered records in pages of 100.
\<close>

definition no_int_of_str :: "string \<Rightarrow> int option" where
  "no_int_of_str s = None"

definition demo_session :: session where
  "demo_session endpoint ps =
     \<lparr>status_code = 200,
      content = JsonBody (JObj
        [(''itens'', JArr (map (\<lambda>i. JObj [(''id'', JInt i)])
                            [(pagina ps - 1) * 100 + 1 .. min (pagina ps * 100) 250])),
         (''itens_totais'', JInt 250)])\<rparr>"

lemma append_items_dicts:
  "list_all is_dict items \<Longrightarrow> append_items acc items = Inr (acc @ items)"
  by (induction items arbitrary: acc) auto

lemma loop_body_well_shaped:
  assumes "well_shaped (response_at session endpoint start until (page st))"
  shows "loop_body int_of_str session endpoint start until st =
    (let r = response_at session endpoint start until (page st);
         captured = (case total_expected st of None \<Rightarrow> total_of r | Some t \<Rightarrow> t);
         st3 = st\<lparr>calls := calls st @ [(endpoint, page_params start until (page st))],
                  total_expected := Some captured,
                  collected := collected st @ items_of r\<rparr>
     in if int (length (collected st3)) \<ge> captured \<or> items_of r = []
        then Break st3 else Continue (st3\<lparr>page := page st + 1\<rparr>))"
  using assms
  unfolding loop_body_def well_shaped_def items_of_def total_of_def page_params_def
    response_at_def Let_def
  by (auto split: body.splits json.splits option.splits
           simp: append_items_dicts response_json_def)

lemma fetch_loop_Break:
  "loop_body int_of_str session endpoint start until st = Break st'
   \<Longrightarrow> fetch_loop int_of_str session endpoint start until st = (Inr (collected st'), st')"
  by (subst fetch_loop.simps) simp

lemma fetch_loop_Continue:
  "loop_body int_of_str session endpoint start until st = Continue st'
   \<Longrightarrow> fetch_loop int_of_str session endpoint start until st
       = fetch_loop int_of_str session endpoint start until st'"
  by (subst fetch_loop.simps) simp

lemma fetch_loop_Raise:
  "loop_body int_of_str session endpoint start until st = Raise e st'
   \<Longrightarrow> fetch_loop int_of_str session endpoint start until st = (Inl e, st')"
  by (subst fetch_loop.simps) simp

lemma pages_upto_step:
  "1 \<le> p \<Longrightarrow> pages_upto session endpoint start until p =
     pages_upto session endpoint start until (p - 1)
       @ items_of (response_at session endpoint start until p)"
  by (simp add: pages_upto_def upto_rec2)

lemma calls_upto_step:
  "1 \<le> p \<Longrightarrow> calls_upto endpoint start until p =
     calls_upto endpoint start until (p - 1) @ [(endpoint, page_params start until p)]"
  by (simp add: calls_upto_def upto_rec2)

lemma fetch_loop_well_shaped:
  assumes ws: "\<forall>p\<ge>1. well_shaped (response_at session endpoint start until p)"
    and "1 \<le> page st"
    and "collected st = pages_upto session endpoint start until (page st - 1)"
    and "total_expected st =
           (if page st = 1 then None
            else Some (total_of (response_at session endpoint start until 1)))"
    and "calls st = calls_upto endpoint start until (page st - 1)"
    and "\<forall>k. 1 \<le> k \<and> k < page st \<longrightarrow> \<not> stops_at session endpoint start until k"
  shows "\<exists>n\<ge>page st.
           fetch_loop int_of_str session endpoint start until st =
             (Inr (pages_upto session endpoint start until n),
              \<lparr>collected = pages_upto session endpoint start until n,
               total_expected = Some (total_of (response_at session endpoint start until 1)),
               page = n,
               calls = calls_upto endpoint start until n\<rparr>)
           \<and> stops_at session endpoint start until n
           \<and> (\<forall>k. 1 \<le> k \<and> k < n \<longrightarrow> \<not> stops_at session endpoint start until k)"
  using assms
proof (induction int_of_str session endpoint start until st rule: fetch_loop.induct)
  case (1 int_of_str session endpoint start until st)
  let ?p = "page st"
  let ?r = "response_at session endpoint start until"
  let ?T = "total_of (?r 1)"
  let ?st3 = "\<lparr>collected = pages_upto session endpoint start until ?p,
               total_expected = Some ?T, page = ?p,
               calls = calls_upto endpoint start until ?p\<rparr>"
  have wsp: "well_shaped (?r ?p)"
    using "1.prems"(1,2) by simp
  have cap: "(case total_expected st of None \<Rightarrow> total_of (?r ?p) | Some t \<Rightarrow> t) = ?T"
    using "1.prems"(4) by simp
  have st3: "st\<lparr>calls := calls st @ [(endpoint, page_params start until ?p)],
                total_expected := Some ?T,
                collected := collected st @ items_of (?r ?p)\<rparr> = ?st3"
    using "1.prems"(2,3,5) by (simp add: pages_upto_step calls_upto_step)
  have body: "loop_body int_of_str session endpoint start until st =
     (if stops_at session endpoint start until ?p then Break ?st3
      else Continue (?st3\<lparr>page := ?p + 1\<rparr>))"
    unfolding loop_body_well_shaped [OF wsp] Let_def cap st3
    by (simp add: stops_at_def)
  show ?case
  proof (cases "stops_at session endpoint start until ?p")
    case True
    then have "fetch_loop int_of_str session endpoint start until st =
        (Inr (pages_upto session endpoint start until ?p), ?st3)"
      using body by (simp add: fetch_loop_Break)
    with True "1.prems"(6) show ?thesis by (intro exI [of _ ?p]) simp
  next
    case False
    let ?st' = "?st3\<lparr>page := ?p + 1\<rparr>"
    from False body have c: "loop_body int_of_str session endpoint start until st = Continue ?st'"
      by simp
    have nostop: "\<forall>k. 1 \<le> k \<and> k < page ?st' \<longrightarrow> \<not> stops_at session endpoint start until k"
    proof (intro allI impI)
      fix k assume "1 \<le> k \<and> k < page ?st'"
      then have "k < ?p \<or> k = ?p" by auto
      with False "1.prems"(6) \<open>1 \<le> k \<and> k < page ?st'\<close>
      show "\<not> stops_at session endpoint start until k" by auto
    qed
    have "\<exists>n\<ge>page ?st'.
           fetch_loop int_of_str session endpoint start until ?st' =
             (Inr (pages_upto session endpoint start until n),
              \<lparr>collected = pages_upto session endpoint start until n,
               total_expected = Some ?T, page = n,
               calls = calls_upto endpoint start until n\<rparr>)
           \<and> stops_at session endpoint start until n
           \<and> (\<forall>k. 1 \<le> k \<and> k < n \<longrightarrow> \<not> stops_at session endpoint start until k)"
      using "1.prems"(1,2) nostop
      by (intro "1.IH" [OF c]) simp_all
    then obtain n where n: "n \<ge> ?p + 1"
      "fetch_loop int_of_str session endpoint start until ?st' =
             (Inr (pages_upto session endpoint start until n),
              \<lparr>collected = pages_upto session endpoint start until n,
               total_expected = Some ?T, page = n,
               calls = calls_upto endpoint start until n\<rparr>)"
      "stops_at session endpoint start until n"
      "\<forall>k. 1 \<le> k \<and> k < n \<longrightarrow> \<not> stops_at session endpoint start until k"
      by auto
    show ?thesis
      using n fetch_loop_Continue [OF c] by (intro exI [of _ n]) simp
  qed
qed

text \<open>
  Claim C2. On a stream of well-shaped responses \<open>fetch_all\<close> returns, without an error,
  after the first page \<open>n\<close> at which the accumulated length has reached the total of the
  first page or the page's \<open>itens\<close> is empty: it returns the items of pages 1 to \<open>n\<close>, and
  no earlier page met the stop condition. That the loop ends on every stream at all is
  the termination proof of \<open>fetch_loop\<close>.
\<close>

theorem fetch_all_terminates:
  assumes "\<forall>p\<ge>1. well_shaped (response_at session endpoint start until p)"
  shows "\<exists>n\<ge>1.
           fetch_all int_of_str session endpoint start until =
             (Inr (pages_upto session endpoint start until n),
              \<lparr>collected = pages_upto session endpoint start until n,
               total_expected = Some (total_of (response_at session endpoint start until 1)),
               page = n,
               calls = calls_upto endpoint start until n\<rparr>)
           \<and> stops_at session endpoint start until n
           \<and> (\<forall>k. 1 \<le> k \<and> k < n \<longrightarrow> \<not> stops_at session endpoint start until k)"
proof -
  let ?st = "\<lparr>collected = [], total_expected = None, page = 1, calls = []\<rparr>"
  have "\<exists>n\<ge>page ?st.
           fetch_loop int_of_str session endpoint start until ?st =
             (Inr (pages_upto session endpoint start until n),
              \<lparr>collected = pages_upto session endpoint start until n,
               total_expected = Some (total_of (response_at session endpoint start until 1)),
               page = n,
               calls = calls_upto endpoint start until n\<rparr>)
           \<and> stops_at session endpoint start until n
           \<and> (\<forall>k. 1 \<le> k \<and> k < n \<longrightarrow> \<not> stops_at session endpoint start until k)"
    using assms
    by (intro fetch_loop_well_shaped) (auto simp add: pages_upto_def calls_upto_def)
  then show ?thesis by (simp add: fetch_all_def)
qed

text \<open>
  Claim C1. When the first page reports a total of 250 and the three pages hold 100, 100
  and 50 items, \<open>fetch_all\<close> issues exactly the three GETs for pages 1, 2 and 3, each with
  page size 100, and returns the 250 items in the order of the responses.
\<close>

theorem fetch_all_three_pages:
  assumes "well_shaped (response_at session endpoint start until 1)"
    and "well_shaped (response_at session endpoint start until 2)"
    and "well_shaped (response_at session endpoint start until 3)"
    and "total_of (response_at session endpoint start until 1) = 250"
    and "length (items_of (response_at session endpoint start until 1)) = 100"
    and "length (items_of (response_at session endpoint start until 2)) = 100"
    and "length (items_of (response_at session endpoint start until 3)) = 50"
  shows "fetch_all int_of_str session endpoint start until =
           (Inr (items_of (response_at session endpoint start until 1)
                 @ items_of (response_at session endpoint start until 2)
                 @ items_of (response_at session endpoint start until 3)),
            \<lparr>collected = items_of (response_at session endpoint start until 1)
                 @ items_of (response_at session endpoint start until 2)
                 @ items_of (response_at session endpoint start until 3),
             total_expected = Some 250,
             page = 3,
             calls = [(endpoint, \<lparr>pagina = 1, tamanho_pagina = 100,
                                   data_vencimento_de = start, data_vencimento_ate = until\<rparr>),
                      (endpoint, \<lparr>pagina = 2, tamanho_pagina = 100,
                                   data_vencimento_de = start, data_vencimento_ate = until\<rparr>),
                      (endpoint, \<lparr>pagina = 3, tamanho_pagina = 100,
                                   data_vencimento_de = start, data_vencimento_ate = until\<rparr>)]\<rparr>)"
proof -
  let ?r = "response_at session endpoint start until"
  let ?c = "\<lambda>p. (endpoint, page_params start until p)"
  let ?st0 = "\<lparr>collected = [], total_expected = None, page = 1, calls = []\<rparr>"
  let ?st1 = "\<lparr>collected = items_of (?r 1), total_expected = Some 250, page = 2,
               calls = [?c 1]\<rparr>"
  let ?st2 = "\<lparr>collected = items_of (?r 1) @ items_of (?r 2), total_expected = Some 250,
               page = 3, calls = [?c 1, ?c 2]\<rparr>"
  let ?st3 = "\<lparr>collected = items_of (?r 1) @ items_of (?r 2) @ items_of (?r 3),
               total_expected = Some 250, page = 3, calls = [?c 1, ?c 2, ?c 3]\<rparr>"
  have ne: "items_of (?r 1) \<noteq> []" "items_of (?r 2) \<noteq> []"
    using assms(5,6) by auto
  have b1: "loop_body int_of_str session endpoint start until ?st0 = Continue ?st1"
    using assms(1,4,5) ne loop_body_well_shaped [of session endpoint start until ?st0 int_of_str]
    by (simp add: Let_def)
  have b2: "loop_body int_of_str session endpoint start until ?st1 = Continue ?st2"
    using assms(2,5,6) ne loop_body_well_shaped [of session endpoint start until ?st1 int_of_str]
    by (simp add: Let_def)
  have b3: "loop_body int_of_str session endpoint start until ?st2 = Break ?st3"
    using assms(3,5,6,7) loop_body_well_shaped [of session endpoint start until ?st2 int_of_str]
    by (simp add: Let_def)
  have "fetch_all int_of_str session endpoint start until = (Inr (collected ?st3), ?st3)"
    unfolding fetch_all_def
    by (simp only: fetch_loop_Continue [OF b1] fetch_loop_Continue [OF b2]
                   fetch_loop_Break [OF b3])
  then show ?thesis by (simp add: page_params_def PAGE_SIZE_def)
qed

lemma demo_well_shaped: "well_shaped (response_at demo_session endpoint start until p)"
  by (simp add: well_shaped_def response_at_def demo_session_def page_params_def
                raise_for_status_def list_all_iff)

lemma demo_items:
  "items_of (response_at demo_session endpoint start until p) =
     map (\<lambda>i. JObj [(''id'', JInt i)]) [(p - 1) * 100 + 1 .. min (p * 100) 250]"
  by (simp add: items_of_def response_at_def demo_session_def page_params_def)

lemma demo_total: "total_of (response_at demo_session endpoint start until p) = 250"
  by (simp add: total_of_def response_at_def demo_session_def page_params_def)

theorem fetch_all_three_pages_witness:
  "fetch_all no_int_of_str demo_session ''cr'' ''2025-08-15'' ''2027-09-20'' =
     (Inr (map (\<lambda>i. JObj [(''id'', JInt i)]) ([1..100] @ [101..200] @ [201..250])),
      \<lparr>collected = map (\<lambda>i. JObj [(''id'', JInt i)]) ([1..100] @ [101..200] @ [201..250]),
       total_expected = Some 250,
       page = 3,
       calls = [(''cr'', \<lparr>pagina = 1, tamanho_pagina = 100,
                   data_vencimento_de = ''2025-08-15'', data_vencimento_ate = ''2027-09-20''\<rparr>),
                (''cr'', \<lparr>pagina = 2, tamanho_pagina = 100,
                   data_vencimento_de = ''2025-08-15'', data_vencimento_ate = ''2027-09-20''\<rparr>),
                (''cr'', \<lparr>pagina = 3, tamanho_pagina = 100,
                   data_vencimento_de = ''2025-08-15'', data_vencimento_ate = ''2027-09-20''\<rparr>)]\<rparr>)"
  using fetch_all_three_pages [of demo_session "''cr''" "''2025-08-15''" "''2027-09-20''" no_int_of_str]
  by (simp add: demo_well_shaped demo_items demo_total)

theorem fetch_all_terminates_witness:
  "(\<forall>p. well_shaped (response_at demo_session ''cr'' ''2025-08-15'' ''2027-09-20'' p))
   \<and> (\<exists>n\<ge>1.
        fetch_all no_int_of_str demo_session ''cr'' ''2025-08-15'' ''2027-09-20'' =
          (Inr (pages_upto demo_session ''cr'' ''2025-08-15'' ''2027-09-20'' n),
           \<lparr>collected = pages_upto demo_session ''cr'' ''2025-08-15'' ''2027-09-20'' n,
            total_expected = Some 250,
            page = n,
            calls = calls_upto ''cr'' ''2025-08-15'' ''2027-09-20'' n\<rparr>)
        \<and> stops_at demo_session ''cr'' ''2025-08-15'' ''2027-09-20'' n
        \<and> (\<forall>k. 1 \<le> k \<and> k < n \<longrightarrow> \<not> stops_at demo_session ''cr'' ''2025-08-15'' ''2027-09-20'' k))"
  using fetch_all_terminates [of demo_session "''cr''" "''2025-08-15''" "''2027-09-20''" no_int_of_str]
  by (simp add: demo_well_shaped demo_total)

subsection \<open>Malformed responses\<close>

text \<open>A field of a JSON object (none when the value is no object), and \<open>isinstance(v, list)\<close>.\<close>

fun json_field :: "json \<Rightarrow> string \<Rightarrow> json option" where
  "json_field (JObj kvs) k = map_of kvs k"
| "json_field _ k = None"

fun is_list :: "json \<Rightarrow> bool" where
  "is_list (JArr _) = True"
| "is_list _ = False"

lemma append_items_not_dicts:
  "\<not> list_all is_dict items \<Longrightarrow> \<exists>acc'. append_items acc items = Inl acc'"
  by (induction items arbitrary: acc) auto

lemma loop_body_shape_error:
  assumes "raise_for_status (response_at session endpoint start until (page st)) = None"
    and "content (response_at session endpoint start until (page st)) = JsonBody payload"
    and "\<not> is_dict payload
         \<or> json_field payload ''itens'' = None
         \<or> json_field payload ''itens_totais'' = None
         \<or> (\<exists>v. json_field payload ''itens'' = Some v \<and> \<not> is_list v)
         \<or> (\<exists>items tv t. json_field payload ''itens'' = Some (JArr items)
               \<and> \<not> list_all is_dict items
               \<and> json_field payload ''itens_totais'' = Some tv
               \<and> py_int int_of_str tv = Inr t)"
  shows "\<exists>v st'. loop_body int_of_str session endpoint start until st = Raise (ApiError v) st'"
proof (cases payload)
  case (JObj kvs)
  show ?thesis
  proof (cases "map_of kvs ''itens''")
    case None
    with JObj assms(1,2) show ?thesis
      by (simp add: loop_body_def response_at_def page_params_def response_json_def Let_def)
  next
    case (Some items_v)
    note itens = this
    show ?thesis
    proof (cases "map_of kvs ''itens_totais''")
      case None
      with JObj itens assms(1,2) show ?thesis
        by (simp add: loop_body_def response_at_def page_params_def response_json_def Let_def)
    next
      case (Some tv)
      note totais = this
      show ?thesis
      proof (cases "is_list items_v")
        case False
        with JObj itens totais assms(1,2) show ?thesis
          by (cases items_v)
             (simp_all add: loop_body_def response_at_def page_params_def response_json_def Let_def)
      next
        case True
        then obtain items where items: "items_v = JArr items" by (cases items_v) auto
        from assms(3) JObj itens totais items
        obtain t where t: "py_int int_of_str tv = Inr t" and nd: "\<not> list_all is_dict items"
          by auto
        from append_items_not_dicts [OF nd]
        obtain acc' where "append_items (collected st) items = Inl acc'" by blast
        with JObj itens totais items t assms(1,2) show ?thesis
          by (simp add: loop_body_def response_at_def page_params_def response_json_def Let_def)
      qed
    qed
  qed
qed (use assms(1,2) in
      \<open>simp_all add: loop_body_def response_at_def page_params_def response_json_def Let_def\<close>)


text \<open>
  Concrete inputs: a session that answers every GET with status 200 and the same payload,
  and three payloads.
\<close>

definition constant_session :: "json \<Rightarrow> session" where
  "constant_session payload endpoint ps = \<lparr>status_code = 200, content = JsonBody payload\<rparr>"

definition bad_total_payload :: json where
  "bad_total_payload = JObj [(''itens'', JArr [JInt 1]), (''itens_totais'', JNull)]"

definition item_not_object_payload :: json where
  "item_not_object_payload =
     JObj [(''itens'', JArr [JObj [(''id'', JInt 1)], JInt 7]), (''itens_totais'', JInt 2)]"

definition missing_total_payload :: json where
  "missing_total_payload = JObj [(''itens'', JArr [JObj [(''id'', JInt 1)]])]"

text \<open>
  What the checks of the loop catch. A response that \<open>raise_for_status\<close> accepts and whose
  payload is no JSON object, or lacks \<open>itens\<close>, or lacks \<open>itens_totais\<close>, or whose \<open>itens\<close> is
  no list, makes the loop raise \<open>ApiError\<close>, at whichever page \<open>page st\<close> it arrives; so
  does an item that is no object, once \<open>int\<close> has converted \<open>itens_totais\<close>. When the first
  page lacks \<open>itens_totais\<close>, \<open>ApiError\<close> is raised after the one GET with nothing
  accumulated.
\<close>

lemma fetch_all_shape_error:
  "(raise_for_status (response_at session endpoint start until (page st)) = None
    \<and> content (response_at session endpoint start until (page st)) = JsonBody payload
    \<and> (\<not> is_dict payload
       \<or> json_field payload ''itens'' = None
       \<or> json_field payload ''itens_totais'' = None
       \<or> (\<exists>v. json_field payload ''itens'' = Some v \<and> \<not> is_list v)
       \<or> (\<exists>items tv t. json_field payload ''itens'' = Some (JArr items)
             \<and> \<not> list_all is_dict items
             \<and> json_field payload ''itens_totais'' = Some tv
             \<and> py_int int_of_str tv = Inr t))
    \<longrightarrow> (\<exists>v st'. fetch_loop int_of_str session endpoint start until st
                     = (Inl (ApiError v), st')))
   \<and> (raise_for_status (response_at session endpoint start until 1) = None
      \<and> content (response_at session endpoint start until 1) = JsonBody first
      \<and> json_field first ''itens_totais'' = None
    \<longrightarrow> (\<exists>v. fetch_all int_of_str session endpoint start until
               = (Inl (ApiError v),
                  \<lparr>collected = [], total_expected = None, page = 1,
                   calls = [(endpoint, page_params start until 1)]\<rparr>)))"
proof (intro conjI impI)
  assume a: "raise_for_status (response_at session endpoint start until (page st)) = None
    \<and> content (response_at session endpoint start until (page st)) = JsonBody payload
    \<and> (\<not> is_dict payload
       \<or> json_field payload ''itens'' = None
       \<or> json_field payload ''itens_totais'' = None
       \<or> (\<exists>v. json_field payload ''itens'' = Some v \<and> \<not> is_list v)
       \<or> (\<exists>items tv t. json_field payload ''itens'' = Some (JArr items)
             \<and> \<not> list_all is_dict items
             \<and> json_field payload ''itens_totais'' = Some tv
             \<and> py_int int_of_str tv = Inr t))"
  then obtain v st' where
    "loop_body int_of_str session endpoint start until st = Raise (ApiError v) st'"
    using loop_body_shape_error [of session endpoint start until st payload int_of_str]
    by blast
  then show "\<exists>v st'. fetch_loop int_of_str session endpoint start until st
                     = (Inl (ApiError v), st')"
    by (auto simp: fetch_loop_Raise)
next
  let ?st0 = "\<lparr>collected = [], total_expected = None, page = 1, calls = []\<rparr>"
  let ?st1 = "\<lparr>collected = [], total_expected = None, page = 1,
               calls = [(endpoint, page_params start until 1)]\<rparr>"
  assume b: "raise_for_status (response_at session endpoint start until 1) = None
      \<and> content (response_at session endpoint start until 1) = JsonBody first
      \<and> json_field first ''itens_totais'' = None"
  have "\<exists>v. loop_body int_of_str session endpoint start until ?st0 = Raise (ApiError v) ?st1"
  proof (cases first)
    case (JObj kvs)
    with b show ?thesis
      by (cases "map_of kvs ''itens''")
         (simp_all add: loop_body_def response_at_def page_params_def response_json_def Let_def)
  qed (use b in
        \<open>simp_all add: loop_body_def response_at_def page_params_def response_json_def Let_def\<close>)
  then show "\<exists>v. fetch_all int_of_str session endpoint start until = (Inl (ApiError v), ?st1)"
    by (auto simp: fetch_all_def fetch_loop_Raise)
qed

lemma constant_session_response:
  "response_at (constant_session payload) endpoint start until p
     = \<lparr>status_code = 200, content = JsonBody payload\<rparr>"
  by (simp add: response_at_def constant_session_def)

text \<open>
  Claim C7. A response one of whose items is no object is to fail with \<open>ApiError\<close>, the
  error that by its docstring is raised when the response format does not match
  expectations, as the five checks of the loop do. The conversion \<open>int(payload["itens_totais"])\<close>
  stands between the fourth and the fifth of them and is not guarded: on a first page
  \<open>{"itens": [1], "itens_totais": null}\<close>, whose one item is no object, \<open>fetch_all\<close> raises
  \<open>TypeError\<close>, not \<open>ApiError\<close>.
\<close>

theorem fetch_all_unguarded_total:
  "json_field bad_total_payload ''itens'' = Some (JArr [JInt 1])
   \<and> \<not> list_all is_dict [JInt 1]
   \<and> fetch_all no_int_of_str (constant_session bad_total_payload)
        ''cr'' ''2025-08-15'' ''2027-09-20''
      = (Inl TypeError,
         \<lparr>collected = [], total_expected = None, page = 1,
          calls = [(''cr'', \<lparr>pagina = 1, tamanho_pagina = 100,
                      data_vencimento_de = ''2025-08-15'',
                      data_vencimento_ate = ''2027-09-20''\<rparr>)]\<rparr>)"
  by (simp add: bad_total_payload_def fetch_all_def fetch_loop_Raise loop_body_def
                constant_session_def raise_for_status_def response_json_def PAGE_SIZE_def)

text \<open>Two instances: an item that is no object under a total of 2, and a first page without a total.\<close>

lemma fetch_all_shape_error_example:
  "json_field item_not_object_payload ''itens'' = Some (JArr [JObj [(''id'', JInt 1)], JInt 7])
   \<and> \<not> list_all is_dict [JObj [(''id'', JInt 1)], JInt 7]
   \<and> py_int no_int_of_str (JInt 2) = Inr 2
   \<and> (\<exists>v st'. fetch_loop no_int_of_str (constant_session item_not_object_payload)
                 ''cr'' ''2025-08-15'' ''2027-09-20''
                 \<lparr>collected = [], total_expected = None, page = 1, calls = []\<rparr>
               = (Inl (ApiError v), st'))
   \<and> json_field missing_total_payload ''itens_totais'' = None
   \<and> (\<exists>v. fetch_all no_int_of_str (constant_session missing_total_payload)
             ''cr'' ''2025-08-15'' ''2027-09-20''
           = (Inl (ApiError v),
              \<lparr>collected = [], total_expected = None, page = 1,
               calls = [(''cr'', page_params ''2025-08-15'' ''2027-09-20'' 1)]\<rparr>))"
proof -
  have 1: "\<exists>v st'. fetch_loop no_int_of_str (constant_session item_not_object_payload)
                 ''cr'' ''2025-08-15'' ''2027-09-20''
                 \<lparr>collected = [], total_expected = None, page = 1, calls = []\<rparr>
               = (Inl (ApiError v), st')"
    using fetch_all_shape_error
      [of "constant_session item_not_object_payload" "''cr''" "''2025-08-15''" "''2027-09-20''"
          "\<lparr>collected = [], total_expected = None, page = 1, calls = []\<rparr>"
          item_not_object_payload no_int_of_str]
    by (simp add: constant_session_response raise_for_status_def item_not_object_payload_def)
  have 2: "\<exists>v. fetch_all no_int_of_str (constant_session missing_total_payload)
             ''cr'' ''2025-08-15'' ''2027-09-20''
           = (Inl (ApiError v),
              \<lparr>collected = [], total_expected = None, page = 1,
               calls = [(''cr'', page_params ''2025-08-15'' ''2027-09-20'' 1)]\<rparr>)"
    using fetch_all_shape_error
      [of "constant_session missing_total_payload" "''cr''" "''2025-08-15''" "''2027-09-20''"
          _ _ no_int_of_str missing_total_payload]
    by (simp add: constant_session_response raise_for_status_def missing_total_payload_def)
  show ?thesis
    using 1 2 by (simp add: item_not_object_payload_def missing_total_payload_def)
qed

section \<open>financial_events_sync.py: the spreadsheet sink\<close>

text \<open>
  \<open>json.dumps(value, ensure_ascii=False)\<close> is the library's; the text it produces is the
  parameter \<open>dumps\<close>.
\<close>

fun normalise_value :: "(json \<Rightarrow> string) \<Rightarrow> json \<Rightarrow> json" where
  "normalise_value dumps JNull = JStr ''''"
| "normalise_value dumps (JObj kvs) = JStr (dumps (JObj kvs))"
| "normalise_value dumps (JArr xs) = JStr (dumps (JArr xs))"
| "normalise_value dumps v = v"

text \<open>The inner loop \<open>for key in record.keys(): if key not in columns: columns.append(key)\<close>.\<close>

fun add_keys :: "string list \<Rightarrow> string list \<Rightarrow> string list" where
  "add_keys columns [] = columns"
| "add_keys columns (key # keys) =
     add_keys (if key \<in> set columns then columns else columns @ [key]) keys"

definition records_to_rows :: "(json \<Rightarrow> string) \<Rightarrow> dict list \<Rightarrow> json list list" where
  "records_to_rows dumps records =
     (let columns = fold (\<lambda>record columns. add_keys columns (map fst record)) records []
      in if columns = []
         then [JStr ''raw_json''] # map (\<lambda>record. [JStr (dumps (JObj record))]) records
         else map JStr columns
              # map (\<lambda>record. map (\<lambda>column. normalise_value dumps (dict_get record column))
                                    columns) records)"

text \<open>
  The worksheet is the list of the \<open>update\<close> calls made on it since it was cleared, each
  with its range and values.
\<close>

type_synonym worksheet = "(string \<times> json list list) list"

definition write_to_sheet :: "(json \<Rightarrow> string) \<Rightarrow> worksheet \<Rightarrow> dict list \<Rightarrow> worksheet" where
  "write_to_sheet dumps worksheet records =
     (if records = [] then worksheet
      else worksheet @ [(''A1'', records_to_rows dumps records)])"

text \<open>
  The specification's words: the keys in first-seen order, and the cell of a record under
  a column.
\<close>

fun first_seen :: "'a list \<Rightarrow> 'a list" where
  "first_seen [] = []"
| "first_seen (x # xs) = x # filter (\<lambda>y. y \<noteq> x) (first_seen xs)"

definition spec_cell :: "(json \<Rightarrow> string) \<Rightarrow> dict \<Rightarrow> string \<Rightarrow> json" where
  "spec_cell dumps record column =
     (case map_of record column of
        None \<Rightarrow> JStr ''''
      | Some JNull \<Rightarrow> JStr ''''
      | Some (JObj kvs) \<Rightarrow> JStr (dumps (JObj kvs))
      | Some (JArr xs) \<Rightarrow> JStr (dumps (JArr xs))
      | Some v \<Rightarrow> v)"

text \<open>
  Concrete inputs: a stand-in for \<open>json.dumps\<close>, right on the empty object (the one value
  serialised below), and the two records of the specification's example.
\<close>

definition demo_dumps :: "json \<Rightarrow> string" where
  "demo_dumps v = (if v = JObj [] then ''{}'' else ''[]'')"

definition two_records :: "dict list" where
  "two_records = [[(''a'', JStr ''1''), (''b'', JStr ''2'')],
                  [(''a'', JStr ''3''), (''c'', JStr ''4'')]]"

lemma set_first_seen: "set (first_seen xs) = set xs"
  by (induction xs) auto

lemma first_seen_append:
  "first_seen (xs @ ys) = first_seen xs @ filter (\<lambda>y. y \<notin> set xs) (first_seen ys)"
  by (induction xs) (auto intro: filter_cong)

lemma add_keys_first_seen:
  "add_keys columns keys = columns @ filter (\<lambda>k. k \<notin> set columns) (first_seen keys)"
  by (induction keys arbitrary: columns) (auto intro: filter_cong)

lemma fold_add_keys:
  "fold (\<lambda>record columns. add_keys columns (map fst record)) records columns
     = columns @ filter (\<lambda>k. k \<notin> set columns)
                   (first_seen (concat (map (map fst) records)))"
  by (induction records arbitrary: columns)
     (auto simp: add_keys_first_seen first_seen_append set_first_seen intro: filter_cong)

lemma normalise_value_spec_cell:
  "normalise_value dumps (dict_get record column) = spec_cell dumps record column"
  by (simp add: dict_get_def spec_cell_def split: option.splits json.splits)

text \<open>
  Claim C6, as the code has it. For every record list in which some record has a key, the
  sink writes at A1 a header row, the keys of all records in first-seen order, and then
  one row per record in input order; a cell is the empty string for a key that is null or
  absent, the JSON text of an object or array, and a scalar unchanged.
\<close>

theorem write_to_sheet_union:
  assumes "concat (map (map fst) records) \<noteq> []"
  shows "write_to_sheet dumps worksheet records =
           worksheet @
           [(''A1'',
             map JStr (first_seen (concat (map (map fst) records)))
             # map (\<lambda>record. map (spec_cell dumps record)
                                  (first_seen (concat (map (map fst) records)))) records)]"
proof -
  have ne: "records \<noteq> []" using assms by auto
  have "first_seen (concat (map (map fst) records)) \<noteq> []"
    using assms set_first_seen [of "concat (map (map fst) records)"]
    by (metis set_empty)
  then show ?thesis
    using ne
    by (simp add: write_to_sheet_def records_to_rows_def fold_add_keys
                  normalise_value_spec_cell Let_def)
qed

theorem write_to_sheet_union_witness:
  "concat (map (map fst) two_records) \<noteq> []
   \<and> write_to_sheet demo_dumps [] two_records =
       [(''A1'', [[JStr ''a'', JStr ''b'', JStr ''c''],
                  [JStr ''1'', JStr ''2'', JStr ''''],
                  [JStr ''3'', JStr '''', JStr ''4'']])]"
  using write_to_sheet_union [of two_records demo_dumps "[]"]
  by (simp add: two_records_def spec_cell_def)

text \<open>
  For a non-empty list of records that have no key at all the header is the placeholder
  \<open>raw_json\<close>, not the (empty) union of the keys.
\<close>

theorem write_to_sheet_union_counterexample:
  "[[]] \<noteq> ([] :: dict list)
   \<and> first_seen (concat (map (map fst) ([[]] :: dict list))) = []
   \<and> write_to_sheet demo_dumps [] [[]] = [(''A1'', [[JStr ''raw_json''], [JStr ''{}'']])]"
  by (simp add: write_to_sheet_def records_to_rows_def demo_dumps_def)

section \<open>conta_azul_cr.py: the OAuth token lifecycle\<close>

text \<open>
  The numbers among the values, as the rational they denote (\<open>True\<close> is 1);
  \<open>time.time() + x\<close> and \<open>x > time.time()\<close> raise \<open>TypeError\<close> on anything else. The
  comparison of a number with a float is exact in Python.
\<close>

fun as_number :: "json \<Rightarrow> rat option" where
  "as_number (JInt n) = Some (of_int n)"
| "as_number (JFloat q) = Some q"
| "as_number (JBool b) = Some (if b then 1 else 0)"
| "as_number _ = None"

definition py_gt_float :: "json \<Rightarrow> rat \<Rightarrow> py_error + bool" where
  "py_gt_float v now =
     (case as_number v of None \<Rightarrow> Inl TypeError | Some q \<Rightarrow> Inr (q > now))"

text \<open>
  The float arithmetic of the machine, which the model takes as it is given:
  \<open>float_of_int n\<close> is the float nearest to the integer \<open>n\<close>, and none when \<open>n\<close> is too large
  to convert (Python raises \<open>OverflowError\<close>); \<open>float_sum x y\<close> is the sum of two floats
  rounded to a float, and none when that sum is not finite. Two laws hold whatever the
  rounding and are written out: \<open>float(0)\<close> is \<open>0.0\<close>, and \<open>x + 0.0\<close> is \<open>x\<close>.
\<close>

record float_arith =
  float_of_int :: "int \<Rightarrow> rat option"
  float_sum :: "rat \<Rightarrow> rat \<Rightarrow> rat option"

definition to_float :: "float_arith \<Rightarrow> int \<Rightarrow> rat option" where
  "to_float fa n = (if n = 0 then Some 0 else float_of_int fa n)"

text \<open>
  \<open>NonFiniteFloat\<close> is no exception of Python: the sum is \<open>inf\<close>, a value that is not
  represented, and the run is not followed further.
\<close>

definition add_floats :: "float_arith \<Rightarrow> rat \<Rightarrow> rat \<Rightarrow> py_error + json" where
  "add_floats fa x y =
     (if y = 0 then Inr (JFloat x)
      else (case float_sum fa x y of
              None \<Rightarrow> Inl NonFiniteFloat
            | Some z \<Rightarrow> Inr (JFloat z)))"

text \<open>
  \<open>time.time() + x\<close>: an integer is converted to a float first, which overflows for an
  integer beyond the floats; the sum is the rounded sum of the two floats.
\<close>

fun py_add_float :: "float_arith \<Rightarrow> rat \<Rightarrow> json \<Rightarrow> py_error + json" where
  "py_add_float fa now (JInt n) =
     (case to_float fa n of
        None \<Rightarrow> Inl OverflowError
      | Some x \<Rightarrow> add_floats fa now x)"
| "py_add_float fa now (JBool b) = add_floats fa now (if b then 1 else 0)"
| "py_add_float fa now (JFloat q) = add_floats fa now q"
| "py_add_float fa now v = Inl TypeError"

text \<open>\<open>d.get(key, default)\<close>, \<open>d[key]\<close> and \<open>d[key] = value\<close> on a dictionary.\<close>

definition dict_get_default :: "dict \<Rightarrow> string \<Rightarrow> json \<Rightarrow> json" where
  "dict_get_default d key dflt = (case map_of d key of None \<Rightarrow> dflt | Some v \<Rightarrow> v)"

definition subscript :: "dict \<Rightarrow> string \<Rightarrow> py_error + json" where
  "subscript d key = (case map_of d key of None \<Rightarrow> Inl (KeyError key) | Some v \<Rightarrow> Inr v)"

fun dict_set :: "dict \<Rightarrow> string \<Rightarrow> json \<Rightarrow> dict" where
  "dict_set [] key v = [(key, v)]"
| "dict_set ((k, x) # d) key v =
     (if k = key then (k, v) # d else (k, x) # dict_set d key v)"

definition TOKEN_URL :: string where
  "TOKEN_URL = ''https://auth.contaazul.com/oauth2/token''"

record oauth_handler =
  client_id :: string
  client_secret :: string
  redirect_uri :: string
  token_file :: string

text \<open>
  A POST as \<open>requests.post\<close> is given it. \<open>BasicAuth c\<close> is the header
  \<open>Authorization: Basic\<close> followed by the base64 text of \<open>c\<close>.
\<close>

datatype header = ContentType string | BasicAuth string

record post_request =
  url :: string
  form :: "(string \<times> json) list"
  headers :: "header list"

text \<open>
  What the program reads and changes outside itself: the files, the environment
  variables, the clock (\<open>clock w n\<close> is what the \<open>n\<close>-th call of \<open>time.time()\<close> returns, and
  \<open>ticks\<close> counts the calls made), the machine's float arithmetic, and the token
  endpoint. \<open>posts\<close> and \<open>writes\<close> keep, oldest first, the POSTs sent and the files
  written. A POST that gets no response at all is outside the model.
\<close>

record world =
  files :: "string \<rightharpoonup> body"
  environ :: "string \<rightharpoonup> string"
  clock :: "nat \<Rightarrow> rat"
  ticks :: nat
  arith :: float_arith
  token_endpoint :: "post_request \<Rightarrow> http_response"
  posts :: "post_request list"
  writes :: "(string \<times> json) list"

definition time_time :: "world \<Rightarrow> rat \<times> world" where
  "time_time w = (clock w (ticks w), w\<lparr>ticks := Suc (ticks w)\<rparr>)"

definition basic_auth_header :: "oauth_handler \<Rightarrow> header" where
  "basic_auth_header auth = BasicAuth (client_id auth @ '':'' @ client_secret auth)"

text \<open>\<open>load_tokens\<close>: \<open>None\<close> when the file does not exist.\<close>

definition load_tokens :: "oauth_handler \<Rightarrow> world \<Rightarrow> py_error + json" where
  "load_tokens auth w =
     (case files w (token_file auth) of
        None \<Rightarrow> Inr JNull
      | Some NotJson \<Rightarrow> Inl JSONDecodeError
      | Some (JsonBody v) \<Rightarrow> Inr v)"

definition save_tokens :: "oauth_handler \<Rightarrow> json \<Rightarrow> world \<Rightarrow> world" where
  "save_tokens auth tokens w =
     w\<lparr>files := (files w)(token_file auth \<mapsto> JsonBody tokens),
       writes := writes w @ [(token_file auth, tokens)]\<rparr>"

text \<open>
  \<open>exchange_code\<close> and \<open>refresh\<close> differ in the form they send; from the headers on their
  lines are the same, and are written once here.
\<close>

definition token_request :: "oauth_handler \<Rightarrow> (string \<times> json) list \<Rightarrow> post_request" where
  "token_request auth data =
     \<lparr>url = TOKEN_URL, form = data,
      headers = [ContentType ''application/x-www-form-urlencoded'', basic_auth_header auth]\<rparr>"

definition post_for_tokens ::
  "oauth_handler \<Rightarrow> (string \<times> json) list \<Rightarrow> world \<Rightarrow> (py_error + dict) \<times> world" where
  "post_for_tokens auth data w =
     (let request = token_request auth data;
          resp = token_endpoint w request;
          w1 = w\<lparr>posts := posts w @ [request]\<rparr>
      in case raise_for_status resp of
           Some e \<Rightarrow> (Inl e, w1)
         | None \<Rightarrow>
          (case response_json resp of
             Inl e \<Rightarrow> (Inl e, w1)
           | Inr tokens \<Rightarrow>
              (let (now, w2) = time_time w1
               in case tokens of
                    JObj d \<Rightarrow>
                     (case py_add_float (arith w2) now
                             (dict_get_default d ''expires_in'' (JInt 0)) of
                        Inl e \<Rightarrow> (Inl e, w2)
                      | Inr expires_at \<Rightarrow>
                         (let d' = dict_set d ''expires_at'' expires_at
                          in (Inr d', save_tokens auth (JObj d') w2)))
                  | _ \<Rightarrow> (Inl AttributeError, w2))))"

definition exchange_form :: "oauth_handler \<Rightarrow> string \<Rightarrow> (string \<times> json) list" where
  "exchange_form auth code =
     [(''client_id'', JStr (client_id auth)),
      (''client_secret'', JStr (client_secret auth)),
      (''grant_type'', JStr ''authorization_code''),
      (''code'', JStr code),
      (''redirect_uri'', JStr (redirect_uri auth))]"

definition exchange_code :: "oauth_handler \<Rightarrow> string \<Rightarrow> world \<Rightarrow> (py_error + dict) \<times> world" where
  "exchange_code auth code w = post_for_tokens auth (exchange_form auth code) w"

definition refresh_form :: "oauth_handler \<Rightarrow> json \<Rightarrow> (string \<times> json) list" where
  "refresh_form auth refresh_token =
     [(''client_id'', JStr (client_id auth)),
      (''client_secret'', JStr (client_secret auth)),
      (''grant_type'', JStr ''refresh_token''),
      (''refresh_token'', refresh_token)]"

definition refresh :: "oauth_handler \<Rightarrow> json \<Rightarrow> world \<Rightarrow> (py_error + dict) \<times> world" where
  "refresh auth refresh_token w = post_for_tokens auth (refresh_form auth refresh_token) w"

text \<open>
  The last lines of \<open>get_access_token\<close>, from \<open>code = os.environ.get(...)\<close> on: reached
  when nothing usable is stored. \<open>SystemExit\<close> stands for the exit with the message that
  holds the authorization URL.
\<close>

definition authorize_with_code :: "oauth_handler \<Rightarrow> world \<Rightarrow> (py_error + json) \<times> world" where
  "authorize_with_code auth w =
     (case environ w ''CONTA_AZUL_AUTH_CODE'' of
        None \<Rightarrow> (Inl SystemExit, w)
      | Some code \<Rightarrow>
          if code = [] then (Inl SystemExit, w)
          else (case exchange_code auth code w of
                  (Inl e, w1) \<Rightarrow> (Inl e, w1)
                | (Inr tokens, w1) \<Rightarrow>
                    (subscript tokens ''access_token'',
                     w1\<lparr>environ := (environ w1)(''CONTA_AZUL_AUTH_CODE'' := None)\<rparr>)))"

definition get_access_token :: "oauth_handler \<Rightarrow> world \<Rightarrow> (py_error + json) \<times> world" where
  "get_access_token auth w =
     (case load_tokens auth w of
        Inl e \<Rightarrow> (Inl e, w)
      | Inr tokens \<Rightarrow>
          if truthy tokens then
            (case tokens of
               JObj d \<Rightarrow>
                (let expires_at = dict_get_default d ''expires_at'' (JInt 0);
                     (now, w1) = time_time w
                 in case py_gt_float expires_at now of
                      Inl e \<Rightarrow> (Inl e, w1)
                    | Inr True \<Rightarrow> (subscript d ''access_token'', w1)
                    | Inr False \<Rightarrow>
                        if truthy (dict_get d ''refresh_token'')
                        then (case refresh auth (dict_get d ''refresh_token'') w1 of
                                (Inl e, w2) \<Rightarrow> (Inl e, w2)
                              | (Inr tokens', w2) \<Rightarrow> (subscript tokens' ''access_token'', w2))
                        else authorize_with_code auth w1)
             | _ \<Rightarrow> (Inl AttributeError, w))
          else authorize_with_code auth w)"

section \<open>Properties of the OAuth token lifecycle\<close>

text \<open>
  A call of \<open>get_access_token\<close> that does not take the fast path is seen from outside:
  it exits asking for an authorization code, or it sends exactly one POST to the token
  endpoint.
\<close>

definition renews_or_exits :: "oauth_handler \<Rightarrow> world \<Rightarrow> bool" where
  "renews_or_exits auth w =
     (fst (get_access_token auth w) = Inl SystemExit
      \<or> (posts (snd (get_access_token auth w)) \<noteq> []
         \<and> butlast (posts (snd (get_access_token auth w))) = posts w))"

text \<open>
  Concrete inputs: a handler; a float arithmetic given on the integers up to \<open>2 ^ 53\<close>,
  where conversion and sum are exact, and left undefined elsewhere (no input below goes
  there); a world whose token file holds \<open>stored\<close>, whose clock reads 1000, 1001, ... and
  whose token endpoint answers every POST with \<open>status\<close> and \<open>reply\<close>; token records and
  replies with and without an expiry.
\<close>

definition demo_arith :: float_arith where
  "demo_arith =
     \<lparr>float_of_int = (\<lambda>n. if \<bar>n\<bar> \<le> 2 ^ 53 then Some (of_int n) else None),
      float_sum = (\<lambda>x y. if of_int \<lfloor>x\<rfloor> = x \<and> of_int \<lfloor>y\<rfloor> = y \<and> \<bar>x + y\<bar> \<le> 2 ^ 53
                         then Some (x + y) else None)\<rparr>"

definition demo_auth :: oauth_handler where
  "demo_auth = \<lparr>client_id = ''id'', client_secret = ''secret'',
                 redirect_uri = ''https://example.org/cb'', token_file = ''tokens.json''\<rparr>"

definition demo_world :: "json \<Rightarrow> int \<Rightarrow> json \<Rightarrow> world" where
  "demo_world stored status reply =
     \<lparr>files = [''tokens.json'' \<mapsto> JsonBody stored],
      environ = Map.empty,
      clock = (\<lambda>n. 1000 + of_nat n),
      ticks = 0,
      arith = demo_arith,
      token_endpoint = (\<lambda>request. \<lparr>status_code = status, content = JsonBody reply\<rparr>),
      posts = [],
      writes = []\<rparr>"

definition expired_tokens :: json where
  "expired_tokens = JObj [(''access_token'', JStr ''old''), (''refresh_token'', JStr ''r1''),
                          (''expires_at'', JFloat 500)]"

definition refreshed_reply :: json where
  "refreshed_reply = JObj [(''access_token'', JStr ''new''), (''expires_in'', JInt 3600)]"

definition unstamped_tokens :: json where
  "unstamped_tokens = JObj [(''access_token'', JStr ''old''), (''refresh_token'', JStr ''r1'')]"

definition unstamped_reply :: json where
  "unstamped_reply = JObj [(''access_token'', JStr ''new'')]"

lemma map_of_dict_set:
  "map_of (dict_set d key v) k = (if k = key then Some v else map_of d k)"
  by (induction d key v rule: dict_set.induct) auto

lemma post_for_tokens_accepted:
  assumes "raise_for_status (token_endpoint w (token_request auth data)) = None"
    and "content (token_endpoint w (token_request auth data)) = JsonBody (JObj new)"
    and "py_add_float (arith w) (clock w (ticks w)) (dict_get_default new ''expires_in'' (JInt 0))
           = Inr expires_at"
  shows "post_for_tokens auth data w =
           (Inr (dict_set new ''expires_at'' expires_at),
            w\<lparr>ticks := Suc (ticks w),
              posts := posts w @ [token_request auth data],
              files := (files w)(token_file auth \<mapsto>
                 JsonBody (JObj (dict_set new ''expires_at'' expires_at))),
              writes := writes w @
                 [(token_file auth, JObj (dict_set new ''expires_at'' expires_at))]\<rparr>)"
  using assms
  by (simp add: post_for_tokens_def Let_def response_json_def time_time_def save_tokens_def)

lemma post_for_tokens_http_error:
  assumes "400 \<le> status_code (token_endpoint w (token_request auth data))"
    and "status_code (token_endpoint w (token_request auth data)) < 600"
  shows "post_for_tokens auth data w =
           (Inl (HTTPError (token_endpoint w (token_request auth data))),
            w\<lparr>posts := posts w @ [token_request auth data]\<rparr>)"
  using assms
  by (simp add: post_for_tokens_def Let_def raise_for_status_def)

text \<open>
  An \<open>expires_in\<close> too large for a float: \<open>OverflowError\<close> is raised after the POST and the
  reading of the clock, and nothing is written.
\<close>

lemma post_for_tokens_overflow:
  assumes "raise_for_status (token_endpoint w (token_request auth data)) = None"
    and "content (token_endpoint w (token_request auth data)) = JsonBody (JObj new)"
    and "map_of new ''expires_in'' = Some (JInt n)"
    and "n \<noteq> 0"
    and "float_of_int (arith w) n = None"
  shows "post_for_tokens auth data w =
           (Inl OverflowError,
            w\<lparr>ticks := Suc (ticks w), posts := posts w @ [token_request auth data]\<rparr>)"
  using assms
  by (simp add: post_for_tokens_def Let_def response_json_def time_time_def
                dict_get_default_def to_float_def)

lemma posts_post_for_tokens:
  "posts (snd (post_for_tokens auth data w)) = posts w @ [token_request auth data]"
  by (simp add: post_for_tokens_def Let_def time_time_def save_tokens_def
           split: option.splits sum.splits json.splits prod.splits)

lemma posts_authorize_with_code:
  "fst (authorize_with_code auth w) = Inl SystemExit
   \<or> (\<exists>request. posts (snd (authorize_with_code auth w)) = posts w @ [request])"
proof (cases "environ w ''CONTA_AZUL_AUTH_CODE''")
  case None
  then show ?thesis by (simp add: authorize_with_code_def)
next
  case (Some code)
  show ?thesis
  proof (cases "code = []")
    case True
    with Some show ?thesis by (simp add: authorize_with_code_def)
  next
    case False
    have "posts (snd (authorize_with_code auth w))
            = posts (snd (exchange_code auth code w))"
      using Some False
      by (simp add: authorize_with_code_def split: prod.splits sum.splits)
    then show ?thesis
      by (simp add: exchange_code_def posts_post_for_tokens)
  qed
qed

lemma get_access_token_expired:
  assumes "files w (token_file auth) = Some (JsonBody (JObj d))"
    and "d \<noteq> []"
    and "py_gt_float (dict_get_default d ''expires_at'' (JInt 0)) (clock w (ticks w)) = Inr False"
  shows "renews_or_exits auth w"
proof (cases "truthy (dict_get d ''refresh_token'')")
  case True
  have "posts (snd (get_access_token auth w))
          = posts (snd (refresh auth (dict_get d ''refresh_token'') (w\<lparr>ticks := Suc (ticks w)\<rparr>)))"
    using assms True
    by (simp add: get_access_token_def load_tokens_def time_time_def
             split: prod.splits sum.splits)
  then show ?thesis
    by (simp add: renews_or_exits_def refresh_def posts_post_for_tokens)
next
  case False
  have "get_access_token auth w = authorize_with_code auth (w\<lparr>ticks := Suc (ticks w)\<rparr>)"
    using assms False
    by (simp add: get_access_token_def load_tokens_def time_time_def)
  then show ?thesis
    using posts_authorize_with_code [of auth "w\<lparr>ticks := Suc (ticks w)\<rparr>"]
    by (auto simp: renews_or_exits_def)
qed

text \<open>
  Claim C3. When the stored record's \<open>expires_at\<close> is a number strictly greater than the
  clock's reading, \<open>get_access_token\<close> returns the stored \<open>access_token\<close> as it is; the world
  is unchanged but for the one reading of the clock: no POST, no write, the files as
  they were.
\<close>

theorem get_access_token_fast_path:
  assumes "files w (token_file auth) = Some (JsonBody (JObj d))"
    and "map_of d ''expires_at'' = Some v"
    and "as_number v = Some e"
    and "clock w (ticks w) < e"
    and "map_of d ''access_token'' = Some a"
  shows "get_access_token auth w = (Inr a, w\<lparr>ticks := Suc (ticks w)\<rparr>)"
proof -
  have "d \<noteq> []" using assms(2) by auto
  then show ?thesis
    using assms
    by (simp add: get_access_token_def load_tokens_def time_time_def dict_get_default_def
                  py_gt_float_def subscript_def)
qed

theorem get_access_token_fast_path_witness:
  "get_access_token demo_auth
     (demo_world (JObj [(''access_token'', JStr ''abc''), (''refresh_token'', JStr ''r1''),
                        (''expires_at'', JFloat 2000)]) 200 JNull)
   = (Inr (JStr ''abc''),
      (demo_world (JObj [(''access_token'', JStr ''abc''), (''refresh_token'', JStr ''r1''),
                         (''expires_at'', JFloat 2000)]) 200 JNull)\<lparr>ticks := 1\<rparr>)"
  using get_access_token_fast_path
    [of "demo_world (JObj [(''access_token'', JStr ''abc''), (''refresh_token'', JStr ''r1''),
                           (''expires_at'', JFloat 2000)]) 200 JNull"
        demo_auth
        "[(''access_token'', JStr ''abc''), (''refresh_token'', JStr ''r1''),
          (''expires_at'', JFloat 2000)]"
        "JFloat 2000" 2000 "JStr ''abc''"]
  by (simp add: demo_world_def demo_auth_def)

text \<open>
  Claim C4. When the stored record's \<open>expires_at\<close> is not greater than the clock's reading
  and its \<open>refresh_token\<close> is a non-empty string, and the token endpoint accepts the refresh
  with an \<open>expires_in\<close> that is a number within the floats (\<open>x\<close> is that number as a float,
  0 when the field is absent), \<open>get_access_token\<close> sends exactly one POST (the refresh
  form and the client's credentials, to the token URL), returns the new \<open>access_token\<close>,
  and the token file holds the server's record with \<open>expires_at\<close> set to \<open>s\<close>, the float sum
  of the clock's reading at that moment and \<open>x\<close>: every other field is the server's, none
  is the old record's.
\<close>

theorem get_access_token_refresh:
  assumes "files w (token_file auth) = Some (JsonBody (JObj d))"
    and "map_of d ''expires_at'' = Some v"
    and "as_number v = Some e"
    and "e \<le> clock w (ticks w)"
    and "map_of d ''refresh_token'' = Some (JStr rt)"
    and "rt \<noteq> []"
    and "request =
           \<lparr>url = ''https://auth.contaazul.com/oauth2/token'',
            form = [(''client_id'', JStr (client_id auth)),
                    (''client_secret'', JStr (client_secret auth)),
                    (''grant_type'', JStr ''refresh_token''),
                    (''refresh_token'', JStr rt)],
            headers = [ContentType ''application/x-www-form-urlencoded'',
                       BasicAuth (client_id auth @ '':'' @ client_secret auth)]\<rparr>"
    and "raise_for_status (token_endpoint w request) = None"
    and "content (token_endpoint w request) = JsonBody (JObj new)"
    and "case dict_get_default new ''expires_in'' (JInt 0) of
           JInt n \<Rightarrow> if n = 0 then x = 0 else float_of_int (arith w) n = Some x
         | JFloat q \<Rightarrow> x = q
         | JBool b \<Rightarrow> x = (if b then 1 else 0)
         | _ \<Rightarrow> False"
    and "if x = 0 then s = clock w (Suc (ticks w))
         else float_sum (arith w) (clock w (Suc (ticks w))) x = Some s"
    and "map_of new ''access_token'' = Some a"
    and "stored = dict_set new ''expires_at'' (JFloat s)"
  shows "get_access_token auth w =
           (Inr a,
            w\<lparr>ticks := Suc (Suc (ticks w)),
              posts := posts w @ [request],
              files := (files w)(token_file auth \<mapsto> JsonBody (JObj stored)),
              writes := writes w @ [(token_file auth, JObj stored)]\<rparr>)
         \<and> (\<forall>k. map_of stored k =
                   (if k = ''expires_at'' then Some (JFloat s) else map_of new k))"
proof -
  let ?w1 = "w\<lparr>ticks := Suc (ticks w)\<rparr>"
  have "d \<noteq> []" using assms(2) by auto
  have sum: "py_add_float (arith w) (clock w (Suc (ticks w)))
               (dict_get_default new ''expires_in'' (JInt 0)) = Inr (JFloat s)"
    using assms(10,11)
    by (cases "dict_get_default new ''expires_in'' (JInt 0)")
       (auto simp: to_float_def add_floats_def split: if_splits)
  have req: "request = token_request auth (refresh_form auth (JStr rt))"
    using assms(7)
    by (simp add: token_request_def refresh_form_def TOKEN_URL_def basic_auth_header_def)
  have r: "refresh auth (JStr rt) ?w1 =
      (Inr stored,
       w\<lparr>ticks := Suc (Suc (ticks w)),
         posts := posts w @ [request],
         files := (files w)(token_file auth \<mapsto> JsonBody (JObj stored)),
         writes := writes w @ [(token_file auth, JObj stored)]\<rparr>)"
    unfolding refresh_def
    using post_for_tokens_accepted [of ?w1 auth "refresh_form auth (JStr rt)" new "JFloat s"]
      assms(8,9,13) req sum
    by simp
  have a: "subscript stored ''access_token'' = Inr a"
    using assms(12,13) by (simp add: subscript_def map_of_dict_set)
  have "get_access_token auth w =
           (Inr a,
            w\<lparr>ticks := Suc (Suc (ticks w)),
              posts := posts w @ [request],
              files := (files w)(token_file auth \<mapsto> JsonBody (JObj stored)),
              writes := writes w @ [(token_file auth, JObj stored)]\<rparr>)"
    using assms(1-6) \<open>d \<noteq> []\<close> r a
    by (simp add: get_access_token_def load_tokens_def time_time_def dict_get_default_def
                  py_gt_float_def dict_get_def)
  then show ?thesis
    using assms(13) by (simp add: map_of_dict_set)
qed

theorem get_access_token_refresh_witness:
  "get_access_token demo_auth (demo_world expired_tokens 200 refreshed_reply) =
     (Inr (JStr ''new''),
      (demo_world expired_tokens 200 refreshed_reply)
        \<lparr>ticks := 2,
         posts := [\<lparr>url = ''https://auth.contaazul.com/oauth2/token'',
                    form = [(''client_id'', JStr ''id''),
                            (''client_secret'', JStr ''secret''),
                            (''grant_type'', JStr ''refresh_token''),
                            (''refresh_token'', JStr ''r1'')],
                    headers = [ContentType ''application/x-www-form-urlencoded'',
                               BasicAuth ''id:secret'']\<rparr>],
         files := [''tokens.json'' \<mapsto>
                     JsonBody (JObj [(''access_token'', JStr ''new''), (''expires_in'', JInt 3600),
                                     (''expires_at'', JFloat 4601)])],
         writes := [(''tokens.json'',
                     JObj [(''access_token'', JStr ''new''), (''expires_in'', JInt 3600),
                           (''expires_at'', JFloat 4601)])]\<rparr>)"
  using get_access_token_refresh
    [of "demo_world expired_tokens 200 refreshed_reply" demo_auth
        "[(''access_token'', JStr ''old''), (''refresh_token'', JStr ''r1''),
          (''expires_at'', JFloat 500)]"
        "JFloat 500" 500 "''r1''"
        "\<lparr>url = ''https://auth.contaazul.com/oauth2/token'',
          form = [(''client_id'', JStr ''id''),
                  (''client_secret'', JStr ''secret''),
                  (''grant_type'', JStr ''refresh_token''),
                  (''refresh_token'', JStr ''r1'')],
          headers = [ContentType ''application/x-www-form-urlencoded'',
                     BasicAuth ''id:secret'']\<rparr>"
        "[(''access_token'', JStr ''new''), (''expires_in'', JInt 3600)]"
        3600 4601 "JStr ''new''"
        "[(''access_token'', JStr ''new''), (''expires_in'', JInt 3600),
          (''expires_at'', JFloat 4601)]"]
  by (simp add: demo_world_def demo_auth_def demo_arith_def expired_tokens_def
                refreshed_reply_def raise_for_status_def dict_get_default_def)

text \<open>
  Claim C8, as the code has it. On a response with a status code from 400 to 599 both
  \<open>exchange_code\<close> and \<open>refresh\<close> raise \<open>HTTPError\<close>, which holds the response (its status
  code and its body), and the world is unchanged but for the POST sent: nothing is
  written.
\<close>

theorem token_post_http_error:
  assumes "400 \<le> status_code resp" and "status_code resp < 600"
  shows "(token_endpoint w (token_request auth (exchange_form auth code)) = resp
          \<longrightarrow> exchange_code auth code w =
                (Inl (HTTPError resp),
                 w\<lparr>posts := posts w @ [token_request auth (exchange_form auth code)]\<rparr>))
       \<and> (token_endpoint w (token_request auth (refresh_form auth refresh_token)) = resp
          \<longrightarrow> refresh auth refresh_token w =
                (Inl (HTTPError resp),
                 w\<lparr>posts := posts w @ [token_request auth (refresh_form auth refresh_token)]\<rparr>))"
  using assms
  by (auto simp: exchange_code_def refresh_def post_for_tokens_http_error)

theorem token_post_http_error_witness:
  "exchange_code demo_auth ''code'' (demo_world JNull 401 (JStr ''denied'')) =
     (Inl (HTTPError \<lparr>status_code = 401, content = JsonBody (JStr ''denied'')\<rparr>),
      (demo_world JNull 401 (JStr ''denied''))
        \<lparr>posts := [token_request demo_auth (exchange_form demo_auth ''code'')]\<rparr>)
   \<and> refresh demo_auth (JStr ''r1'') (demo_world JNull 401 (JStr ''denied'')) =
     (Inl (HTTPError \<lparr>status_code = 401, content = JsonBody (JStr ''denied'')\<rparr>),
      (demo_world JNull 401 (JStr ''denied''))
        \<lparr>posts := [token_request demo_auth (refresh_form demo_auth (JStr ''r1''))]\<rparr>)"
  using token_post_http_error
    [of "\<lparr>status_code = 401, content = JsonBody (JStr ''denied'')\<rparr>"
        "demo_world JNull 401 (JStr ''denied'')" demo_auth "''code''" "JStr ''r1''"]
  by (simp add: demo_world_def)

text \<open>
  \<open>raise_for_status\<close> lets a status outside 200 to 299 pass when it is below 400: on a
  300 with a JSON object as its body \<open>exchange_code\<close> returns the tokens and writes the
  token file.
\<close>

theorem token_post_http_error_counterexample:
  "status_code (token_endpoint (demo_world JNull 300 refreshed_reply)
                  (token_request demo_auth (exchange_form demo_auth ''code''))) = 300
   \<and> fst (exchange_code demo_auth ''code'' (demo_world JNull 300 refreshed_reply)) =
       Inr [(''access_token'', JStr ''new''), (''expires_in'', JInt 3600),
            (''expires_at'', JFloat 4600)]
   \<and> writes (snd (exchange_code demo_auth ''code'' (demo_world JNull 300 refreshed_reply))) =
       [(''tokens.json'',
         JObj [(''access_token'', JStr ''new''), (''expires_in'', JInt 3600),
               (''expires_at'', JFloat 4600)])]"
  by (simp add: exchange_code_def post_for_tokens_def demo_world_def demo_auth_def
                refreshed_reply_def raise_for_status_def response_json_def time_time_def
                demo_arith_def to_float_def add_floats_def dict_get_default_def
                save_tokens_def Let_def)

text \<open>
  Claim C9. With a clock that reads a time since the epoch (not negative), a stored
  record without \<open>expires_at\<close> never takes the fast path. A reply of the token endpoint
  without \<open>expires_in\<close> is stored, by \<open>exchange_code\<close> and by \<open>refresh\<close> alike, with
  \<open>expires_at\<close> equal to the clock's reading; and a record stored so never takes the fast
  path in a later call, whose clock reads no earlier time.
\<close>

theorem missing_expiry_is_expired:
  "(files w (token_file auth) = Some (JsonBody (JObj d)) \<and> d \<noteq> []
    \<and> map_of d ''expires_at'' = None \<and> 0 \<le> clock w (ticks w)
    \<longrightarrow> renews_or_exits auth w)
   \<and> (raise_for_status (token_endpoint w (token_request auth (exchange_form auth code))) = None
      \<and> content (token_endpoint w (token_request auth (exchange_form auth code)))
          = JsonBody (JObj new)
      \<and> map_of new ''expires_in'' = None
    \<longrightarrow> fst (exchange_code auth code w)
          = Inr (dict_set new ''expires_at'' (JFloat (clock w (ticks w))))
      \<and> files (snd (exchange_code auth code w)) (token_file auth)
          = Some (JsonBody (JObj (dict_set new ''expires_at'' (JFloat (clock w (ticks w)))))))
   \<and> (raise_for_status (token_endpoint w (token_request auth (refresh_form auth rt))) = None
      \<and> content (token_endpoint w (token_request auth (refresh_form auth rt)))
          = JsonBody (JObj new)
      \<and> map_of new ''expires_in'' = None
    \<longrightarrow> fst (refresh auth rt w)
          = Inr (dict_set new ''expires_at'' (JFloat (clock w (ticks w))))
      \<and> files (snd (refresh auth rt w)) (token_file auth)
          = Some (JsonBody (JObj (dict_set new ''expires_at'' (JFloat (clock w (ticks w)))))))
   \<and> (files w' (token_file auth)
          = Some (JsonBody (JObj (dict_set new ''expires_at'' (JFloat t))))
      \<and> t \<le> clock w' (ticks w')
    \<longrightarrow> renews_or_exits auth w')"
proof (intro conjI impI)
  assume "files w (token_file auth) = Some (JsonBody (JObj d)) \<and> d \<noteq> []
    \<and> map_of d ''expires_at'' = None \<and> 0 \<le> clock w (ticks w)"
  then show "renews_or_exits auth w"
    by (intro get_access_token_expired [of w auth d])
       (simp_all add: dict_get_default_def py_gt_float_def)
next
  assume a: "raise_for_status (token_endpoint w (token_request auth (exchange_form auth code))) = None
      \<and> content (token_endpoint w (token_request auth (exchange_form auth code)))
          = JsonBody (JObj new)
      \<and> map_of new ''expires_in'' = None"
  then have "exchange_code auth code w =
      (Inr (dict_set new ''expires_at'' (JFloat (clock w (ticks w)))),
       w\<lparr>ticks := Suc (ticks w),
         posts := posts w @ [token_request auth (exchange_form auth code)],
         files := (files w)(token_file auth \<mapsto>
            JsonBody (JObj (dict_set new ''expires_at'' (JFloat (clock w (ticks w)))))),
         writes := writes w @
            [(token_file auth,
              JObj (dict_set new ''expires_at'' (JFloat (clock w (ticks w)))))]\<rparr>)"
    unfolding exchange_code_def
    by (intro post_for_tokens_accepted)
       (simp_all add: dict_get_default_def to_float_def add_floats_def)
  then show "fst (exchange_code auth code w)
          = Inr (dict_set new ''expires_at'' (JFloat (clock w (ticks w))))"
    and "files (snd (exchange_code auth code w)) (token_file auth)
          = Some (JsonBody (JObj (dict_set new ''expires_at'' (JFloat (clock w (ticks w))))))"
    by simp_all
next
  assume a: "raise_for_status (token_endpoint w (token_request auth (refresh_form auth rt))) = None
      \<and> content (token_endpoint w (token_request auth (refresh_form auth rt)))
          = JsonBody (JObj new)
      \<and> map_of new ''expires_in'' = None"
  then have "refresh auth rt w =
      (Inr (dict_set new ''expires_at'' (JFloat (clock w (ticks w)))),
       w\<lparr>ticks := Suc (ticks w),
         posts := posts w @ [token_request auth (refresh_form auth rt)],
         files := (files w)(token_file auth \<mapsto>
            JsonBody (JObj (dict_set new ''expires_at'' (JFloat (clock w (ticks w)))))),
         writes := writes w @
            [(token_file auth,
              JObj (dict_set new ''expires_at'' (JFloat (clock w (ticks w)))))]\<rparr>)"
    unfolding refresh_def
    by (intro post_for_tokens_accepted)
       (simp_all add: dict_get_default_def to_float_def add_floats_def)
  then show "fst (refresh auth rt w)
          = Inr (dict_set new ''expires_at'' (JFloat (clock w (ticks w))))"
    and "files (snd (refresh auth rt w)) (token_file auth)
          = Some (JsonBody (JObj (dict_set new ''expires_at'' (JFloat (clock w (ticks w))))))"
    by simp_all
next
  assume c: "files w' (token_file auth)
          = Some (JsonBody (JObj (dict_set new ''expires_at'' (JFloat t))))
      \<and> t \<le> clock w' (ticks w')"
  have ne: "dict_set new ''expires_at'' (JFloat t) \<noteq> []"
    by (cases new) (auto split: if_splits)
  from c show "renews_or_exits auth w'"
    by (intro get_access_token_expired [of w' auth "dict_set new ''expires_at'' (JFloat t)"] ne)
       (simp_all add: dict_get_default_def py_gt_float_def map_of_dict_set)
qed

theorem missing_expiry_is_expired_witness:
  "renews_or_exits demo_auth (demo_world unstamped_tokens 200 unstamped_reply)
   \<and> fst (exchange_code demo_auth ''code'' (demo_world JNull 200 unstamped_reply))
       = Inr [(''access_token'', JStr ''new''), (''expires_at'', JFloat 1000)]
   \<and> files (snd (exchange_code demo_auth ''code'' (demo_world JNull 200 unstamped_reply)))
         ''tokens.json''
       = Some (JsonBody (JObj [(''access_token'', JStr ''new''), (''expires_at'', JFloat 1000)]))
   \<and> fst (refresh demo_auth (JStr ''r1'') (demo_world unstamped_tokens 200 unstamped_reply))
       = Inr [(''access_token'', JStr ''new''), (''expires_at'', JFloat 1000)]
   \<and> files (snd (refresh demo_auth (JStr ''r1'') (demo_world unstamped_tokens 200 unstamped_reply)))
         ''tokens.json''
       = Some (JsonBody (JObj [(''access_token'', JStr ''new''), (''expires_at'', JFloat 1000)]))
   \<and> renews_or_exits demo_auth
        (demo_world (JObj [(''access_token'', JStr ''new''), (''expires_at'', JFloat 1000)])
           200 unstamped_reply)"
proof -
  note t = missing_expiry_is_expired
    [where auth = demo_auth and new = "[(''access_token'', JStr ''new'')]"
       and code = "''code''" and rt = "JStr ''r1''" and t = 1000
       and d = "[(''access_token'', JStr ''old''), (''refresh_token'', JStr ''r1'')]"
       and w' = "demo_world (JObj [(''access_token'', JStr ''new''),
                                   (''expires_at'', JFloat 1000)]) 200 unstamped_reply"]
  have 1: "renews_or_exits demo_auth (demo_world unstamped_tokens 200 unstamped_reply)"
    and 4: "renews_or_exits demo_auth
        (demo_world (JObj [(''access_token'', JStr ''new''), (''expires_at'', JFloat 1000)])
           200 unstamped_reply)"
    and 3: "fst (refresh demo_auth (JStr ''r1'') (demo_world unstamped_tokens 200 unstamped_reply))
       = Inr [(''access_token'', JStr ''new''), (''expires_at'', JFloat 1000)]
     \<and> files (snd (refresh demo_auth (JStr ''r1'')
                     (demo_world unstamped_tokens 200 unstamped_reply))) ''tokens.json''
       = Some (JsonBody (JObj [(''access_token'', JStr ''new''), (''expires_at'', JFloat 1000)]))"
    using t [where w = "demo_world unstamped_tokens 200 unstamped_reply"]
    by (simp_all add: demo_world_def demo_auth_def unstamped_tokens_def unstamped_reply_def
                      raise_for_status_def)
  have 2: "fst (exchange_code demo_auth ''code'' (demo_world JNull 200 unstamped_reply))
       = Inr [(''access_token'', JStr ''new''), (''expires_at'', JFloat 1000)]
     \<and> files (snd (exchange_code demo_auth ''code'' (demo_world JNull 200 unstamped_reply)))
         ''tokens.json''
       = Some (JsonBody (JObj [(''access_token'', JStr ''new''), (''expires_at'', JFloat 1000)]))"
    using t [where w = "demo_world JNull 200 unstamped_reply"]
    by (simp add: demo_world_def demo_auth_def unstamped_reply_def raise_for_status_def)
  from 1 2 3 4 show ?thesis by simp
qed

section \<open>conta_azul_cr.py: the table sink\<close>

text \<open>
  A value bound to a \<open>?\<close> of a statement, by the types \<open>sqlite3\<close> adapts: \<open>None\<close>, \<open>int\<close>
  (and \<open>bool\<close>), \<open>float\<close>, \<open>str\<close>. A list or a dictionary cannot be bound: the module raises
  its \<open>InterfaceError\<close> (\<open>ProgrammingError\<close> in later versions). What the column's
  type affinity then makes of the value is not modelled: a row holds the values bound.
\<close>

datatype sql_value = SqlNull | SqlInteger int | SqlReal rat | SqlText string

text \<open>An integer is bound as a signed 64-bit INTEGER; beyond that \<open>sqlite3\<close> raises \<open>OverflowError\<close>.\<close>

fun bind_parameter :: "json \<Rightarrow> py_error + sql_value" where
  "bind_parameter JNull = Inr SqlNull"
| "bind_parameter (JBool b) = Inr (SqlInteger (if b then 1 else 0))"
| "bind_parameter (JInt n) =
     (if - (2 ^ 63) \<le> n \<and> n < 2 ^ 63 then Inr (SqlInteger n) else Inl OverflowError)"
| "bind_parameter (JFloat q) = Inr (SqlReal q)"
| "bind_parameter (JStr s) = Inr (SqlText s)"
| "bind_parameter (JArr _) = Inl InterfaceError"
| "bind_parameter (JObj _) = Inl InterfaceError"

fun bind_parameters :: "json list \<Rightarrow> py_error + sql_value list" where
  "bind_parameters [] = Inr []"
| "bind_parameters (v # vs) =
     (case bind_parameter v of
        Inl e \<Rightarrow> Inl e
      | Inr x \<Rightarrow> (case bind_parameters vs of Inl e \<Rightarrow> Inl e | Inr xs \<Rightarrow> Inr (x # xs)))"

text \<open>
  The database as the connection sees it. It holds at most the table CR: its column
  names and its rows, oldest first. \<open>working\<close> is the table with the changes of the open
  transaction, \<open>durable\<close> the table as last committed; \<open>journal\<close> keeps the statements
  that changed the database, oldest first. The \<open>sqlite3\<close> module opens a transaction
  before an INSERT when none is open, and not before CREATE TABLE, which outside a
  transaction is durable at once.

  The SQL text is not parsed: the keys of the sample record are taken to be column names
  that SQLite accepts as they are written. A record without a key gives \<open>CREATE TABLE
  IF NOT EXISTS CR ()\<close>, a syntax error.
\<close>

type_synonym sql_table = "string list \<times> sql_value list list"

datatype sql_event =
    CreateTable "string list"
  | Begin
  | Insert "sql_value list"
  | Commit

record connection =
  working :: "sql_table option"
  durable :: "sql_table option"
  open_tx :: bool
  journal :: "sql_event list"

definition create_table_if_not_exists ::
  "string list \<Rightarrow> connection \<Rightarrow> py_error + connection" where
  "create_table_if_not_exists columns conn =
     (if columns = [] then Inl OperationalError
      else (case working conn of
              Some _ \<Rightarrow> Inr conn
            | None \<Rightarrow>
                Inr (conn\<lparr>working := Some (columns, []),
                         durable := (if open_tx conn then durable conn
                                     else Some (columns, [])),
                         journal := journal conn @ [CreateTable columns]\<rparr>)))"

definition ensure_table :: "connection \<Rightarrow> dict \<Rightarrow> py_error + connection" where
  "ensure_table conn sample_record =
     (case working conn of
        Some _ \<Rightarrow> Inr conn
      | None \<Rightarrow> create_table_if_not_exists (map fst sample_record) conn)"

text \<open>
  \<open>cursor.execute(insert_sql, values)\<close> on the table CR. The statement is prepared (that
  fails without the table), the transaction is opened when none is open, and then the
  values are bound: an error of binding leaves the transaction open.
\<close>

definition execute_insert :: "json list \<Rightarrow> connection \<Rightarrow> py_error option \<times> connection" where
  "execute_insert values_list conn =
     (case working conn of
        None \<Rightarrow> (Some OperationalError, conn)
      | Some (columns, rows) \<Rightarrow>
         (let conn1 = conn\<lparr>open_tx := True,
                           journal := journal conn @ (if open_tx conn then [] else [Begin])\<rparr>
          in case bind_parameters values_list of
               Inl e \<Rightarrow> (Some e, conn1)
             | Inr row \<Rightarrow>
                 (None, conn1\<lparr>working := Some (columns, rows @ [row]),
                              journal := journal conn1 @ [Insert row]\<rparr>)))"

definition commit :: "connection \<Rightarrow> connection" where
  "commit conn =
     (if open_tx conn
      then conn\<lparr>durable := working conn, open_tx := False,
                journal := journal conn @ [Commit]\<rparr>
      else conn)"

text \<open>
  The \<open>for record in records\<close> loop. An exception leaves the connection as it is at that
  moment, the transaction open.
\<close>

fun insert_loop :: "string list \<Rightarrow> dict list \<Rightarrow> connection \<Rightarrow> py_error option \<times> connection" where
  "insert_loop existing_cols [] conn = (None, conn)"
| "insert_loop existing_cols (record # records) conn =
     (case execute_insert (map (dict_get record) existing_cols) conn of
        (Some e, conn') \<Rightarrow> (Some e, conn')
      | (None, conn') \<Rightarrow> insert_loop existing_cols records conn')"

definition insert_records :: "connection \<Rightarrow> dict list \<Rightarrow> py_error option \<times> connection" where
  "insert_records conn records =
     (case records of
        [] \<Rightarrow> (None, conn)
      | sample_record # _ \<Rightarrow>
         (case ensure_table conn sample_record of
            Inl e \<Rightarrow> (Some e, conn)
          | Inr conn1 \<Rightarrow>
             (let existing_cols = (case working conn1 of None \<Rightarrow> [] | Some (columns, _) \<Rightarrow> columns)
              in case insert_loop existing_cols records conn1 of
                   (Some e, conn2) \<Rightarrow> (Some e, conn2)
                 | (None, conn2) \<Rightarrow> (None, commit conn2))))"

text \<open>
  Claim C5. With no table CR and no open transaction, the sink given the two records
  creates the table with the columns a and b of the first record, then inserts both
  rows in input order in one transaction and commits it: the second row has no value of
  c and NULL under b.
\<close>

theorem insert_records_two_records:
  assumes "working conn = None" and "\<not> open_tx conn"
  shows "insert_records conn two_records =
           (None,
            conn\<lparr>working := Some ([''a'', ''b''],
                                   [[SqlText ''1'', SqlText ''2''], [SqlText ''3'', SqlNull]]),
                 durable := Some ([''a'', ''b''],
                                   [[SqlText ''1'', SqlText ''2''], [SqlText ''3'', SqlNull]]),
                 open_tx := False,
                 journal := journal conn @
                   [CreateTable [''a'', ''b''], Begin,
                    Insert [SqlText ''1'', SqlText ''2''], Insert [SqlText ''3'', SqlNull],
                    Commit]\<rparr>)"
  using assms
  by (simp add: insert_records_def two_records_def ensure_table_def
                create_table_if_not_exists_def execute_insert_def commit_def dict_get_def Let_def)

theorem insert_records_two_records_witness:
  "insert_records \<lparr>working = None, durable = None, open_tx = False, journal = []\<rparr> two_records =
     (None,
      \<lparr>working = Some ([''a'', ''b''],
                        [[SqlText ''1'', SqlText ''2''], [SqlText ''3'', SqlNull]]),
       durable = Some ([''a'', ''b''],
                        [[SqlText ''1'', SqlText ''2''], [SqlText ''3'', SqlNull]]),
       open_tx = False,
       journal = [CreateTable [''a'', ''b''], Begin,
                  Insert [SqlText ''1'', SqlText ''2''], Insert [SqlText ''3'', SqlNull],
                  Commit]\<rparr>)"
  using insert_records_two_records
    [of "\<lparr>working = None, durable = None, open_tx = False, journal = []\<rparr>"]
  by simp

text \<open>
  Claim C10. For the empty record list \<open>insert_records\<close> returns at once: the connection
  is as it was, with no table created, no row inserted and nothing committed.
\<close>

theorem insert_records_empty: "insert_records conn [] = (None, conn)"
  by (simp add: insert_records_def)

end
